theory Spec2Isabelle
  imports Complex_Main
begin

section \<open>JavaScript values and library calls\<close>

text \<open>
  The pipeline is written in TypeScript. An optional property (\<open>sub?: string\<close>) is an
  \<open>option\<close>: \<open>None\<close> is JavaScript's \<open>undefined\<close>. Exceptions are values of
  \<open>js_error\<close>, carried on the left of a sum. The calls to \<open>console.log\<close> and
  \<open>console.error\<close> write a log line and have no influence on any returned value; they
  are left out of the model.
\<close>

datatype js_error = TypeError | SyntaxError

text \<open>
  What \<open>JSON.parse\<close> can return. A number is only ever tested for being zero, so a real
  number stands for the double. An object is the list of its own properties, each key
  once.
\<close>

datatype jsvalue =
    JNull
  | JBool bool
  | JNum real
  | JStr string
  | JArr "jsvalue list"
  | JObj "(string \<times> jsvalue) list"

text \<open>
  The payload decoder \<open>JSON.parse(Buffer.from(payload, 'base64').toString())\<close> belongs to
  the Node.js runtime, not to this repository: the functions below take it as the
  parameter \<open>dec\<close>. \<open>Inl\<close> is the exception it throws.
\<close>

type_synonym decoder = "string \<Rightarrow> js_error + jsvalue"

text \<open>\<open>!s\<close> for \<open>s: string | undefined\<close>: true for \<open>undefined\<close> and for the empty string.\<close>

definition falsy_string :: "string option \<Rightarrow> bool" where
  "falsy_string s = (case s of None \<Rightarrow> True | Some t \<Rightarrow> t = [])"

text \<open>\<open>!v\<close> for a value read out of a parsed payload (\<open>None\<close> is \<open>undefined\<close>).\<close>

fun falsy :: "jsvalue option \<Rightarrow> bool" where
  "falsy None = True"
| "falsy (Some JNull) = True"
| "falsy (Some (JBool b)) = (\<not> b)"
| "falsy (Some (JNum n)) = (n = 0)"
| "falsy (Some (JStr s)) = (s = [])"
| "falsy (Some (JArr xs)) = False"
| "falsy (Some (JObj kvs)) = False"

text \<open>
  \<open>s.split(sep)\<close> for a separator of one character: the segments between the
  separators, empty segments kept, so that the result is never the empty list.
\<close>

fun split_js :: "char \<Rightarrow> string \<Rightarrow> string list" where
  "split_js sep [] = [[]]"
| "split_js sep (c # cs) =
     (if c = sep then [] # split_js sep cs
      else (case split_js sep cs of
              [] \<Rightarrow> [[c]]
            | seg # segs \<Rightarrow> (c # seg) # segs))"

text \<open>The destructuring \<open>const [, payload] = xs\<close>: the second element, or \<open>undefined\<close>.\<close>

fun second :: "'a list \<Rightarrow> 'a option" where
  "second (x # y # ys) = Some y"
| "second xs = None"

text \<open>
  \<open>v.scope\<close>: reading a property of \<open>null\<close> throws a TypeError; a primitive or an array
  has no such property; an object gives the property's value or \<open>undefined\<close>.
\<close>

fun get_property :: "jsvalue \<Rightarrow> string \<Rightarrow> js_error + jsvalue option" where
  "get_property JNull key = Inl TypeError"
| "get_property (JObj kvs) key = Inr (map_of kvs key)"
| "get_property v key = Inr None"

text \<open>\<open>try { body } catch (e) { handler(e) }\<close>.\<close>

definition try_catch :: "'e + 'a \<Rightarrow> ('e \<Rightarrow> 'e + 'a) \<Rightarrow> 'e + 'a" where
  "try_catch body handler = (case body of Inl e \<Rightarrow> handler e | Inr v \<Rightarrow> Inr v)"

text \<open>Sequencing of two steps of which the first may throw.\<close>

definition and_then :: "'e + 'a \<Rightarrow> ('a \<Rightarrow> 'e + 'b) \<Rightarrow> 'e + 'b" where
  "and_then m f = (case m of Inl e \<Rightarrow> Inl e | Inr v \<Rightarrow> f v)"

section \<open>Data model\<close>

record role =
  role_id :: string
  role_name :: string

record idp_user_info =
  displayName :: string
  active :: bool
  emails :: "(string \<times> bool) list"
  givenName :: string
  familyName :: string
  formatted :: string
  status :: string
  idpType :: string

record identity =
  provider :: string
  identity_id :: string
  idpUserInfo :: "idp_user_info option"

text \<open>\<open>IBMAppIDProfile\<close>: every field is optional, the subject included.\<close>

record ibm_appid_profile =
  sub :: "string option"
  name :: "string option"
  email :: "string option"
  email_verified :: "bool option"
  given_name :: "string option"
  family_name :: "string option"
  roles :: "role list option"
  identities :: "identity list option"

record token_info =
  access_token :: "string option"
  id_token :: "string option"

text \<open>The user object of \<open>Session\<close> and of \<open>JWT\<close>: every field is optional.\<close>

record user =
  user_id :: "string option"
  user_name :: "string option"
  user_email :: "string option"
  user_image :: "string option"
  user_roles :: "role list option"
  user_email_verified :: "bool option"
  user_identities :: "identity list option"

text \<open>
  \<open>JWT\<close>, the durable token record: \<open>user\<close> and \<open>accessToken\<close> as declared by the
  repository, and the claims the library keeps beside them.
\<close>

record jwt =
  jwt_user :: "user option"
  jwt_accessToken :: "string option"
  jwt_claims :: "(string \<times> jsvalue) list"

record session =
  session_user :: "user option"
  session_accessToken :: "string option"
  expires :: string

section \<open>Token processor\<close>

text \<open>
  Lines 102 to 121 of \<open>fetchUserRoles\<close>: the scope claim is split at single spaces when
  it is a string, and each of the three known scopes adds its role, in this order.
\<close>

definition scope_roles :: "jsvalue option \<Rightarrow> role list" where
  "scope_roles scopes =
     (let scopeArray = (case scopes of Some (JStr s) \<Rightarrow> split_js CHR '' '' s | _ \<Rightarrow> [])
      in (if ''admin'' \<in> set scopeArray
          then [\<lparr>role_id = ''admin'', role_name = ''admin''\<rparr>] else [])
       @ (if ''staff'' \<in> set scopeArray
          then [\<lparr>role_id = ''staff'', role_name = ''staff''\<rparr>] else [])
       @ (if ''appid_manage_roles'' \<in> set scopeArray
          then [\<lparr>role_id = ''role_manager'', role_name = ''role_manager''\<rparr>] else []))"

text \<open>The body of the inner \<open>try\<close>: decode, read \<open>scope\<close>, map the scopes.\<close>

definition decode_roles :: "decoder \<Rightarrow> string \<Rightarrow> js_error + role list" where
  "decode_roles dec payload =
     and_then (dec payload) (\<lambda>decodedToken.
     and_then (get_property decodedToken ''scope'') (\<lambda>scopes.
       if falsy scopes then Inr [] else Inr (scope_roles scopes)))"

definition fetchUserRoles ::
  "decoder \<Rightarrow> string option \<Rightarrow> string option \<Rightarrow> js_error + role list" where
  "fetchUserRoles dec userId accessToken =
     (if falsy_string userId \<or> falsy_string accessToken then Inr []
      else try_catch
        (let payload = second (split_js CHR ''.'' (case accessToken of Some t \<Rightarrow> t | None \<Rightarrow> []))
         in if falsy_string payload then Inr []
            else try_catch
              (decode_roles dec (case payload of Some p \<Rightarrow> p | None \<Rightarrow> []))
              (\<lambda>e. Inr []))
        (\<lambda>error. Inr []))"

text \<open>
  The role lookup as the specification words it (section 4.1), a table from scope to
  role. It is compared below with what \<open>fetchUserRoles\<close> computes.
\<close>

definition role_table :: "string \<Rightarrow> role option" where
  "role_table scope =
     (if scope = ''admin'' then Some \<lparr>role_id = ''admin'', role_name = ''admin''\<rparr>
      else if scope = ''staff'' then Some \<lparr>role_id = ''staff'', role_name = ''staff''\<rparr>
      else if scope = ''appid_manage_roles''
        then Some \<lparr>role_id = ''role_manager'', role_name = ''role_manager''\<rparr>
      else None)"

text \<open>A scope claim written from its scope tokens: the tokens with one space between.\<close>

fun join_scopes :: "string list \<Rightarrow> string" where
  "join_scopes [] = []"
| "join_scopes [t] = t"
| "join_scopes (t # ts) = t @ '' '' @ join_scopes ts"

section \<open>Profile normalizer\<close>

text \<open>A value inside a template literal: \<open>undefined\<close> prints as the word.\<close>

definition template_string :: "string option \<Rightarrow> string" where
  "template_string s = (case s of None \<Rightarrow> ''undefined'' | Some t \<Rightarrow> t)"

text \<open>
  \<open>profile.name || `${profile.given_name} ${profile.family_name}`\<close>: the display name
  when it is present and not empty, the two name parts around a space otherwise.
\<close>

definition display_name :: "ibm_appid_profile \<Rightarrow> string" where
  "display_name p =
     (if falsy_string (name p)
      then template_string (given_name p) @ '' '' @ template_string (family_name p)
      else (case name p of Some n \<Rightarrow> n | None \<Rightarrow> []))"

text \<open>
  The \<open>profile\<close> function of the provider. The returned object has no \<open>image\<close>; \<open>id\<close>,
  \<open>email\<close> and \<open>email_verified\<close> are copied as they are, \<open>identities\<close> is replaced by
  the empty array when absent.
\<close>

definition profile :: "decoder \<Rightarrow> ibm_appid_profile \<Rightarrow> token_info \<Rightarrow> js_error + user" where
  "profile dec p tokens =
     and_then (fetchUserRoles dec (sub p) (access_token tokens)) (\<lambda>rs.
       Inr \<lparr>user_id = sub p,
            user_name = Some (display_name p),
            user_email = email p,
            user_image = None,
            user_roles = Some rs,
            user_email_verified = email_verified p,
            user_identities = Some (case identities p of None \<Rightarrow> [] | Some ids \<Rightarrow> ids)\<rparr>)"

section \<open>Session enricher\<close>

text \<open>\<open>{...user}\<close>: the properties of \<open>user\<close>, none when \<open>user\<close> is \<open>undefined\<close>.\<close>

definition spread :: "user option \<Rightarrow> user" where
  "spread u =
     (case u of
        Some v \<Rightarrow> v
      | None \<Rightarrow> \<lparr>user_id = None, user_name = None, user_email = None, user_image = None,
                 user_roles = None, user_email_verified = None, user_identities = None\<rparr>)"

text \<open>
  \<open>a ?? user.f ?? undefined\<close>: \<open>a\<close> when it is present; otherwise the property of
  \<open>user\<close>, whose read throws a TypeError when \<open>user\<close> is \<open>undefined\<close>.
\<close>

definition or_user_property ::
  "'a option \<Rightarrow> user option \<Rightarrow> (user \<Rightarrow> 'a option) \<Rightarrow> js_error + 'a option" where
  "or_user_property a u f =
     (case a of
        Some v \<Rightarrow> Inr (Some v)
      | None \<Rightarrow> (case u of None \<Rightarrow> Inl TypeError | Some v \<Rightarrow> Inr (f v)))"

text \<open>
  Stage A, the \<open>jwt\<close> callback. Of \<open>account\<close> only \<open>access_token\<close> is read, so a
  \<open>token_info\<close> stands for it.
\<close>

definition jwt_callback ::
  "decoder \<Rightarrow> jwt \<Rightarrow> token_info option \<Rightarrow> ibm_appid_profile option \<Rightarrow> user option
     \<Rightarrow> js_error + jwt" where
  "jwt_callback dec token account prof usr =
     (case account of
        None \<Rightarrow> Inr token
      | Some acc \<Rightarrow>
         (case prof of
            None \<Rightarrow> Inr token
          | Some p \<Rightarrow>
              and_then (fetchUserRoles dec (sub p) (access_token acc)) (\<lambda>rs.
              and_then (or_user_property (email p) usr user_email) (\<lambda>email'.
              and_then (or_user_property (name p) usr user_name) (\<lambda>name'.
                Inr (token\<lparr>jwt_user :=
                              Some ((spread usr)\<lparr>user_roles := Some rs,
                                                 user_id := sub p,
                                                 user_email := email',
                                                 user_name := name'\<rparr>),
                            jwt_accessToken := access_token acc\<rparr>))))))"

text \<open>Stage B, the \<open>session\<close> callback.\<close>

definition session_callback :: "session \<Rightarrow> jwt \<Rightarrow> session" where
  "session_callback s token =
     (let s1 = (case jwt_user token of Some u \<Rightarrow> s\<lparr>session_user := Some u\<rparr> | None \<Rightarrow> s)
      in s1\<lparr>session_accessToken := jwt_accessToken token\<rparr>)"

text \<open>The externally visible projection of a session: its user and its access token.\<close>

definition session_view :: "session \<Rightarrow> user option \<times> string option" where
  "session_view s = (session_user s, session_accessToken s)"

section \<open>Route guard\<close>

text \<open>
  What a page-data loader returns. A loader, like the session lookup, is an effect on
  the world of the request: it takes the world and returns the new one beside its
  result, and it may throw.
\<close>

datatype 'p gssp_result = Redirect string bool | Props 'p | NotFound

type_synonym ('c, 'w, 'p) loader = "'c \<Rightarrow> 'w \<Rightarrow> (js_error + 'p gssp_result) \<times> 'w"

type_synonym ('c, 'w) session_lookup = "'c \<Rightarrow> 'w \<Rightarrow> session option \<times> 'w"

text \<open>\<open>session.user?.roles?.map(role => role.name) || []\<close>.\<close>

definition userRoles :: "session \<Rightarrow> string list" where
  "userRoles s =
     (case session_user s of
        None \<Rightarrow> []
      | Some u \<Rightarrow> (case user_roles u of None \<Rightarrow> [] | Some rs \<Rightarrow> map role_name rs))"

text \<open>\<open>requiredRoles.some(role => userRoles.includes(role))\<close>.\<close>

definition hasRequiredRole :: "string list \<Rightarrow> session \<Rightarrow> bool" where
  "hasRequiredRole requiredRoles s = list_ex (\<lambda>r. r \<in> set (userRoles s)) requiredRoles"

text \<open>
  \<open>withAuth(gssp, requiredRoles)\<close> applied to a request context. \<open>getSession\<close> is the
  library's session lookup, taken as a parameter.
\<close>

definition withAuth ::
  "('c, 'w) session_lookup \<Rightarrow> ('c, 'w, 'p) loader \<Rightarrow> string list option
     \<Rightarrow> ('c, 'w, 'p) loader" where
  "withAuth getSession gssp requiredRoles context w =
     (case getSession context w of
        (None, w1) \<Rightarrow> (Inr (Redirect ''/api/auth/signin'' False), w1)
      | (Some s, w1) \<Rightarrow>
          (case requiredRoles of
             None \<Rightarrow> gssp context w1
           | Some rs \<Rightarrow>
               if rs \<noteq> [] \<and> \<not> hasRequiredRole rs s
               then (Inr (Redirect ''/unauthorized'' False), w1)
               else gssp context w1))"

section \<open>Capability gate\<close>

text \<open>
  \<open>session?.user?.roles?.some(role => role.name === roleName)\<close>, the expression behind
  \<open>isAdmin\<close> and \<open>isStaff\<close>: \<open>undefined\<close> as soon as a link of the chain is absent.
\<close>

definition role_check :: "session option \<Rightarrow> string \<Rightarrow> bool option" where
  "role_check s roleName =
     (case s of
        None \<Rightarrow> None
      | Some v \<Rightarrow>
         (case session_user v of
            None \<Rightarrow> None
          | Some u \<Rightarrow>
             (case user_roles u of
                None \<Rightarrow> None
              | Some rs \<Rightarrow> Some (list_ex (\<lambda>r. role_name r = roleName) rs))))"

text \<open>
  The expression is only ever used as a condition (\<open>isAdmin && ...\<close>, \<open>!isStaff\<close>),
  where \<open>undefined\<close> counts as false: this is the predicate \<open>hasRole\<close>.
\<close>

definition hasRole :: "session option \<Rightarrow> string \<Rightarrow> bool" where
  "hasRole s roleName = (role_check s roleName = Some True)"

text \<open>
  \<open>hasAnyRole\<close> is the role test of \<open>withAuth\<close> (lines 35 and 36) as an expression of
  the session. It reads \<open>session.user\<close> with no optional chaining on \<open>session\<close>, so on
  an absent session the read throws a TypeError; \<open>withAuth\<close> evaluates it only after it
  has returned the sign-in redirect for the absent session.
\<close>

definition hasAnyRole :: "session option \<Rightarrow> string list \<Rightarrow> js_error + bool" where
  "hasAnyRole s roleNames =
     (case s of None \<Rightarrow> Inl TypeError | Some v \<Rightarrow> Inr (hasRequiredRole roleNames v))"

section \<open>Example inputs\<close>

text \<open>
  The decoder at the payloads of the examples below, as the runtime computes it:
  \<open>eyJzY29wZSI6ICJhZG1pbiBzdGFmZiJ9\<close> is the base64 text of an object whose \<open>scope\<close> is
  \<open>admin staff\<close>, \<open>eyJzY29wZSI6ICJhZG1pbiJ9\<close> of one whose \<open>scope\<close> is \<open>admin\<close>,
  \<open>eyJzY29wZSI6InN0YWZmIG9wZW5pZCBhZG1pbiBzdGFmZiJ9\<close> of one whose \<open>scope\<close> is
  \<open>staff openid admin staff\<close>, \<open>eyJzdWIiOiJ1MTIzNCJ9\<close> of one with a \<open>sub\<close> and no
  \<open>scope\<close>. The only other payload used is \<open>bm9wZQ\<close>, the base64 text of \<open>nope\<close>,
  on which \<open>JSON.parse\<close> throws a SyntaxError.
\<close>

definition example_decoder :: decoder where
  "example_decoder payload =
     (if payload = ''eyJzY29wZSI6ICJhZG1pbiBzdGFmZiJ9''
        then Inr (JObj [(''scope'', JStr ''admin staff'')])
      else if payload = ''eyJzY29wZSI6ICJhZG1pbiJ9''
        then Inr (JObj [(''scope'', JStr ''admin'')])
      else if payload = ''eyJzY29wZSI6InN0YWZmIG9wZW5pZCBhZG1pbiBzdGFmZiJ9''
        then Inr (JObj [(''scope'', JStr ''staff openid admin staff'')])
      else if payload = ''eyJzdWIiOiJ1MTIzNCJ9''
        then Inr (JObj [(''sub'', JStr ''u1234'')])
      else Inl SyntaxError)"

definition admin_role :: role where
  "admin_role = \<lparr>role_id = ''admin'', role_name = ''admin''\<rparr>"

definition staff_role :: role where
  "staff_role = \<lparr>role_id = ''staff'', role_name = ''staff''\<rparr>"

definition role_manager_role :: role where
  "role_manager_role = \<lparr>role_id = ''role_manager'', role_name = ''role_manager''\<rparr>"

text \<open>A session whose user holds the staff role, and nothing else.\<close>

definition staff_session :: session where
  "staff_session =
     \<lparr>session_user =
        Some \<lparr>user_id = Some ''u1'', user_name = Some ''Ada'', user_email = None,
              user_image = None, user_roles = Some [staff_role],
              user_email_verified = None, user_identities = None\<rparr>,
      session_accessToken = None,
      expires = ''2030-01-01''\<rparr>"

text \<open>
  A request context that carries its session, if any, and a world that counts the runs
  of the loader: the lookup reads the session off the context, the loader returns a
  page and adds one to the count.
\<close>

definition context_session :: "(session option, nat) session_lookup" where
  "context_session context w = (context, w)"

definition counting_loader :: "(session option, nat, string) loader" where
  "counting_loader context w = (Inr (Props ''page''), Suc w)"

section \<open>Facts about the library calls\<close>

lemma split_js_not_Nil: "split_js sep s \<noteq> []"
  by (induction s) (auto split: list.splits)

lemma split_js_no_sep: "sep \<notin> set s \<Longrightarrow> split_js sep s = [s]"
  by (induction s) auto

lemma split_js_append:
  "sep \<notin> set t \<Longrightarrow> split_js sep (t @ sep # rest) = t # split_js sep rest"
  by (induction t) auto

lemma split_js_join:
  assumes "toks \<noteq> []" "\<forall>t\<in>set toks. CHR '' '' \<notin> set t"
  shows "split_js CHR '' '' (join_scopes toks) = toks"
  using assms
proof (induction toks rule: join_scopes.induct)
  case 1
  then show ?case by simp
next
  case (2 t)
  then show ?case by (simp add: split_js_no_sep)
next
  case (3 t u us)
  then show ?case by (simp add: split_js_append)
qed

lemma join_scopes_empty: "join_scopes toks = [] \<Longrightarrow> \<forall>t\<in>set toks. t = []"
  by (induction toks rule: join_scopes.induct) auto

section \<open>The token processor\<close>

lemma fetchUserRoles_total: "\<exists>rs. fetchUserRoles dec userId accessToken = Inr rs"
  by (auto simp: fetchUserRoles_def try_catch_def Let_def split: sum.splits)

lemma fetchUserRoles_payload:
  assumes "\<not> falsy_string userId" "second (split_js CHR ''.'' tok) = Some p" "p \<noteq> []"
  shows "fetchUserRoles dec userId (Some tok) = try_catch (decode_roles dec p) (\<lambda>e. Inr [])"
proof -
  have "tok \<noteq> []" using assms(2) by (cases tok) auto
  then show ?thesis using assms
    by (simp add: fetchUserRoles_def falsy_string_def try_catch_def Let_def split: sum.splits)
qed

lemma role_table_Some:
  "role_table t = Some r \<longleftrightarrow>
     (t = ''admin'' \<and> r = admin_role) \<or> (t = ''staff'' \<and> r = staff_role)
     \<or> (t = ''appid_manage_roles'' \<and> r = role_manager_role)"
  unfolding role_table_def admin_role_def staff_role_def role_manager_role_def
  by (cases "t = ''admin''"; cases "t = ''staff''"; cases "t = ''appid_manage_roles''") auto

lemma three_way_image:
  "{r. \<exists>t\<in>S. (t = a \<and> r = A) \<or> (t = b \<and> r = B) \<or> (t = c \<and> r = C)} =
     (if a \<in> S then {A} else {}) \<union> (if b \<in> S then {B} else {}) \<union> (if c \<in> S then {C} else {})"
  by auto

lemma role_table_image:
  "{r. \<exists>t\<in>S. role_table t = Some r} =
     (if ''admin'' \<in> S then {admin_role} else {})
     \<union> (if ''staff'' \<in> S then {staff_role} else {})
     \<union> (if ''appid_manage_roles'' \<in> S then {role_manager_role} else {})"
  unfolding role_table_Some by (rule three_way_image)

lemma role_table_empty: "role_table [] = None"
  by (simp add: role_table_def)

text \<open>The inline conditionals of the source compute the image of the table.\<close>

lemma set_scope_roles:
  "set (scope_roles (Some (JStr s))) =
     {r. \<exists>t\<in>set (split_js CHR '' '' s). role_table t = Some r}"
  unfolding role_table_image
  by (simp add: scope_roles_def Let_def admin_role_def staff_role_def role_manager_role_def)

text \<open>No role is returned twice, however often a scope is repeated.\<close>

lemma distinct_three:
  "A \<noteq> B \<Longrightarrow> A \<noteq> C \<Longrightarrow> B \<noteq> C \<Longrightarrow>
   distinct ((if a then [A] else []) @ (if b then [B] else []) @ (if c then [C] else []))"
  by simp

lemma distinct_scope_roles: "distinct (scope_roles scopes)"
  unfolding scope_roles_def Let_def by (rule distinct_three) simp_all

lemma fetchUserRoles_distinct:
  assumes "fetchUserRoles dec userId accessToken = Inr rs"
  shows "distinct rs"
proof (cases "falsy_string userId \<or> falsy_string accessToken")
  case True
  with assms show ?thesis by (auto simp: fetchUserRoles_def)
next
  case False
  with assms show ?thesis
    by (auto simp: fetchUserRoles_def try_catch_def decode_roles_def and_then_def Let_def
        distinct_scope_roles split: if_splits sum.splits)
qed

lemma decode_roles_scope:
  assumes "dec p = Inr (JObj kvs)" "map_of kvs ''scope'' = Some (JStr s)" "s \<noteq> []"
  shows "decode_roles dec p = Inr (scope_roles (Some (JStr s)))"
  using assms by (simp add: decode_roles_def and_then_def)

text \<open>
  C3, as written: a token of fewer than three parts gives the empty role list. It fails
  on the code, which tests only that the second segment exists and is not empty: a
  token of two segments whose second decodes to a payload with the scope \<open>admin\<close>
  gives the admin role.
\<close>

theorem fetchUserRoles_two_segments_counterexample:
  "split_js CHR ''.'' ''x.eyJzY29wZSI6ICJhZG1pbiJ9'' = [''x'', ''eyJzY29wZSI6ICJhZG1pbiJ9'']
   \<and> fetchUserRoles example_decoder (Some ''u1'') (Some ''x.eyJzY29wZSI6ICJhZG1pbiJ9'')
       = Inr [\<lparr>role_id = ''admin'', role_name = ''admin''\<rparr>]"
  by (simp add: fetchUserRoles_def falsy_string_def try_catch_def decode_roles_def and_then_def
      example_decoder_def scope_roles_def)

text \<open>
  C3, amended: \<open>fetchUserRoles\<close> returns the empty role list when the user id or the
  token is absent or empty, when the token has no dot, when its second segment is
  empty, when the decoder throws on the second segment, when the decoded payload is
  \<open>null\<close>, and when the payload has no \<open>scope\<close> or a falsy one; and on no input at all
  does it throw.
\<close>

theorem fetchUserRoles_soft_failure:
  assumes "falsy_string userId \<or> falsy_string accessToken
     \<or> (\<exists>tok. accessToken = Some tok \<and>
          (CHR ''.'' \<notin> set tok
           \<or> second (split_js CHR ''.'' tok) = Some []
           \<or> (\<exists>p. second (split_js CHR ''.'' tok) = Some p \<and>
                ((\<exists>e. dec p = Inl e)
                 \<or> dec p = Inr JNull
                 \<or> (\<exists>v scopes. dec p = Inr v \<and> get_property v ''scope'' = Inr scopes
                       \<and> falsy scopes)))))"
  shows "fetchUserRoles dec userId accessToken = Inr []
         \<and> (\<forall>dec' userId' accessToken'. \<exists>rs. fetchUserRoles dec' userId' accessToken' = Inr rs)"
proof -
  have "fetchUserRoles dec userId accessToken = Inr []"
  proof (cases "falsy_string userId \<or> falsy_string accessToken")
    case True
    then show ?thesis by (simp add: fetchUserRoles_def)
  next
    case False
    with assms obtain tok where tok: "accessToken = Some tok"
      and c: "CHR ''.'' \<notin> set tok
           \<or> second (split_js CHR ''.'' tok) = Some []
           \<or> (\<exists>p. second (split_js CHR ''.'' tok) = Some p \<and>
                ((\<exists>e. dec p = Inl e)
                 \<or> dec p = Inr JNull
                 \<or> (\<exists>v scopes. dec p = Inr v \<and> get_property v ''scope'' = Inr scopes
                       \<and> falsy scopes)))"
      by blast
    from c show ?thesis
    proof (elim disjE exE conjE)
      assume "CHR ''.'' \<notin> set tok"
      then have "split_js CHR ''.'' tok = [tok]" by (rule split_js_no_sep)
      then show ?thesis using tok
        by (simp add: fetchUserRoles_def falsy_string_def try_catch_def)
    next
      assume "second (split_js CHR ''.'' tok) = Some []"
      then show ?thesis using tok
        by (simp add: fetchUserRoles_def falsy_string_def try_catch_def)
    next
      fix p e assume "second (split_js CHR ''.'' tok) = Some p" "dec p = Inl e"
      then show ?thesis using tok
        by (simp add: fetchUserRoles_def falsy_string_def try_catch_def decode_roles_def
            and_then_def Let_def)
    next
      fix p assume "second (split_js CHR ''.'' tok) = Some p" "dec p = Inr JNull"
      then show ?thesis using tok
        by (simp add: fetchUserRoles_def falsy_string_def try_catch_def decode_roles_def
            and_then_def Let_def)
    next
      fix p v scopes
      assume "second (split_js CHR ''.'' tok) = Some p" "dec p = Inr v"
        "get_property v ''scope'' = Inr scopes" "falsy scopes"
      then show ?thesis using tok
        by (simp add: fetchUserRoles_def falsy_string_def try_catch_def decode_roles_def
            and_then_def Let_def)
    qed
  qed
  then show ?thesis using fetchUserRoles_total by blast
qed

text \<open>
  The theorem at a token without a dot, at a token whose payload is not JSON, and at a
  token whose payload has no \<open>scope\<close>.
\<close>

theorem fetchUserRoles_soft_failure_witness:
  "fetchUserRoles example_decoder (Some ''u1'') (Some ''abc'') = Inr []
   \<and> fetchUserRoles example_decoder (Some ''u1'') (Some ''h.bm9wZQ.s'') = Inr []
   \<and> fetchUserRoles example_decoder (Some ''u1'') (Some ''h.eyJzdWIiOiJ1MTIzNCJ9.s'') = Inr []"
proof -
  have a: "CHR ''.'' \<notin> set ''abc''" by simp
  have b: "second (split_js CHR ''.'' ''h.bm9wZQ.s'') = Some ''bm9wZQ''
           \<and> example_decoder ''bm9wZQ'' = Inl SyntaxError"
    by (simp add: example_decoder_def)
  have c: "second (split_js CHR ''.'' ''h.eyJzdWIiOiJ1MTIzNCJ9.s'') = Some ''eyJzdWIiOiJ1MTIzNCJ9''
           \<and> example_decoder ''eyJzdWIiOiJ1MTIzNCJ9'' = Inr (JObj [(''sub'', JStr ''u1234'')])
           \<and> get_property (JObj [(''sub'', JStr ''u1234'')]) ''scope'' = Inr None
           \<and> falsy None"
    by (simp add: example_decoder_def)
  show ?thesis
    using fetchUserRoles_soft_failure [of "Some ''u1''" "Some ''abc''" example_decoder]
      fetchUserRoles_soft_failure [of "Some ''u1''" "Some ''h.bm9wZQ.s''" example_decoder]
      fetchUserRoles_soft_failure
        [of "Some ''u1''" "Some ''h.eyJzdWIiOiJ1MTIzNCJ9.s''" example_decoder]
      a b c
    by blast
qed

text \<open>
  C4, as written: every well-formed token whose scope claim holds \<open>admin\<close> and \<open>staff\<close>
  gives exactly the two roles. It fails on the code when the caller passes no user id:
  the guard at the head of \<open>fetchUserRoles\<close> returns the empty list before the token
  is looked at.
\<close>

theorem fetchUserRoles_no_user_id_counterexample:
  "fetchUserRoles example_decoder None (Some ''h.eyJzY29wZSI6ICJhZG1pbiBzdGFmZiJ9.s'') = Inr []"
  by (simp add: fetchUserRoles_def falsy_string_def)

text \<open>
  C4, amended: called with a user id that is present and not empty, on a token whose
  second segment decodes to an object with the scope claim made of the scope tokens
  \<open>toks\<close> with single spaces between, \<open>fetchUserRoles\<close> returns a list without
  repetition whose set is the image of the scope tokens under the table of the
  specification: only
  \<open>admin\<close>, \<open>staff\<close> and \<open>appid_manage_roles\<close> yield roles, whatever the order, the
  repetitions and the other scope tokens. With \<open>admin\<close> and \<open>staff\<close> among the scope
  tokens and \<open>appid_manage_roles\<close> not, the set is exactly the admin and staff roles.
\<close>

theorem fetchUserRoles_scope_mapping:
  assumes uid: "\<not> falsy_string userId"
    and seg: "second (split_js CHR ''.'' tok) = Some p" "p \<noteq> []"
    and dec: "dec p = Inr (JObj kvs)"
    and scope: "map_of kvs ''scope'' = Some (JStr (join_scopes toks))"
    and toks: "\<forall>t\<in>set toks. CHR '' '' \<notin> set t"
  shows "\<exists>rs. fetchUserRoles dec userId (Some tok) = Inr rs
           \<and> distinct rs
           \<and> set rs = {r. \<exists>t\<in>set toks. role_table t = Some r}
           \<and> (''admin'' \<in> set toks \<and> ''staff'' \<in> set toks \<and> ''appid_manage_roles'' \<notin> set toks
                \<longrightarrow> set rs = {admin_role, staff_role})"
proof -
  have step: "fetchUserRoles dec userId (Some tok) = try_catch (decode_roles dec p) (\<lambda>e. Inr [])"
    using uid seg by (rule fetchUserRoles_payload)
  have tab: "''admin'' \<in> set toks \<and> ''staff'' \<in> set toks \<and> ''appid_manage_roles'' \<notin> set toks
       \<longrightarrow> {r. \<exists>t\<in>set toks. role_table t = Some r} = {admin_role, staff_role}"
    unfolding role_table_image by auto
  show ?thesis
  proof (cases "join_scopes toks = []")
    case True
    then have "\<forall>t\<in>set toks. t = []" by (rule join_scopes_empty)
    then have none: "{r. \<exists>t\<in>set toks. role_table t = Some r} = {}"
      by (auto simp: role_table_empty)
    have "fetchUserRoles dec userId (Some tok) = Inr []"
      using step dec scope True by (simp add: decode_roles_def and_then_def try_catch_def)
    with none tab show ?thesis by auto
  next
    case False
    then have ne: "toks \<noteq> []" by auto
    have "fetchUserRoles dec userId (Some tok) = Inr (scope_roles (Some (JStr (join_scopes toks))))"
      using step decode_roles_scope [of dec p kvs "join_scopes toks"] dec scope False
      by (simp add: try_catch_def)
    moreover have "set (scope_roles (Some (JStr (join_scopes toks))))
        = {r. \<exists>t\<in>set toks. role_table t = Some r}"
      by (simp add: set_scope_roles split_js_join [OF ne toks])
    ultimately show ?thesis using tab distinct_scope_roles by auto
  qed
qed

text \<open>
  The theorem at a token whose scope claim is \<open>staff openid admin staff\<close>: the two
  scopes in the other order, one of them twice, and a scope the table does not know.
\<close>

theorem fetchUserRoles_scope_mapping_witness:
  "\<exists>rs. fetchUserRoles example_decoder (Some ''u1'')
           (Some ''h.eyJzY29wZSI6InN0YWZmIG9wZW5pZCBhZG1pbiBzdGFmZiJ9.s'') = Inr rs
        \<and> set rs = {admin_role, staff_role}"
proof -
  let ?p = "''eyJzY29wZSI6InN0YWZmIG9wZW5pZCBhZG1pbiBzdGFmZiJ9''"
  let ?toks = "[''staff'', ''openid'', ''admin'', ''staff'']"
  let ?kvs = "[(''scope'', JStr ''staff openid admin staff'')]"
  have uid: "\<not> falsy_string (Some ''u1'')" by (simp add: falsy_string_def)
  have seg: "second (split_js CHR ''.'' (''h.'' @ ?p @ ''.s'')) = Some ?p" by simp
  have ne: "?p \<noteq> []" by simp
  have dec: "example_decoder ?p = Inr (JObj ?kvs)" by (simp add: example_decoder_def)
  have scope: "map_of ?kvs ''scope'' = Some (JStr (join_scopes ?toks))" by simp
  have toks: "\<forall>t\<in>set ?toks. CHR '' '' \<notin> set t" by simp
  have mem: "''admin'' \<in> set ?toks \<and> ''staff'' \<in> set ?toks \<and> ''appid_manage_roles'' \<notin> set ?toks"
    by simp
  from fetchUserRoles_scope_mapping
         [of "Some ''u1''" "''h.'' @ ?p @ ''.s''" ?p example_decoder ?kvs ?toks,
          OF uid seg ne dec scope toks]
  obtain rs where "fetchUserRoles example_decoder (Some ''u1'') (Some (''h.'' @ ?p @ ''.s'')) = Inr rs"
    and "''admin'' \<in> set ?toks \<and> ''staff'' \<in> set ?toks \<and> ''appid_manage_roles'' \<notin> set ?toks
           \<longrightarrow> set rs = {admin_role, staff_role}"
    by blast
  with mem have "fetchUserRoles example_decoder (Some ''u1'') (Some (''h.'' @ ?p @ ''.s'')) = Inr rs
      \<and> set rs = {admin_role, staff_role}"
    by blast
  then show ?thesis by (intro exI [of _ rs]) simp
qed

text \<open>
  C5, as written: the role list depends on the token string alone. It fails on the
  code: the same token gives the two roles with a user id and none without.
\<close>

theorem fetchUserRoles_depends_on_user_id_counterexample:
  "fetchUserRoles example_decoder (Some ''u1'') (Some ''h.eyJzY29wZSI6ICJhZG1pbiBzdGFmZiJ9.s'')
     = Inr [admin_role, staff_role]
   \<and> fetchUserRoles example_decoder None (Some ''h.eyJzY29wZSI6ICJhZG1pbiBzdGFmZiJ9.s'')
     = Inr []"
  by (simp add: fetchUserRoles_def falsy_string_def try_catch_def decode_roles_def and_then_def
      example_decoder_def scope_roles_def admin_role_def staff_role_def)

text \<open>
  C5, amended: two calls of \<open>fetchUserRoles\<close> on the same token string, with any two
  user ids that are both present and not empty, return the same role list; a call with
  an absent or empty user id returns the empty list whatever the token.
\<close>

theorem fetchUserRoles_user_id_presence:
  "(\<not> falsy_string userId1 \<and> \<not> falsy_string userId2
      \<longrightarrow> fetchUserRoles dec userId1 accessToken = fetchUserRoles dec userId2 accessToken)
   \<and> (falsy_string userId1 \<longrightarrow> fetchUserRoles dec userId1 accessToken = Inr [])"
  by (simp add: fetchUserRoles_def)

theorem fetchUserRoles_user_id_presence_witness:
  "\<not> falsy_string (Some ''u1'') \<and> \<not> falsy_string (Some ''u2'') \<and> falsy_string None
   \<and> fetchUserRoles example_decoder (Some ''u1'') (Some ''h.eyJzY29wZSI6ICJhZG1pbiJ9.s'')
       = fetchUserRoles example_decoder (Some ''u2'') (Some ''h.eyJzY29wZSI6ICJhZG1pbiJ9.s'')
   \<and> fetchUserRoles example_decoder None (Some ''h.eyJzY29wZSI6ICJhZG1pbiJ9.s'') = Inr []"
proof -
  have h: "\<not> falsy_string (Some ''u1'') \<and> \<not> falsy_string (Some ''u2'') \<and> falsy_string None"
    by (simp add: falsy_string_def)
  show ?thesis
    using h
      fetchUserRoles_user_id_presence
        [of "Some ''u1''" "Some ''u2''" example_decoder "Some ''h.eyJzY29wZSI6ICJhZG1pbiJ9.s''"]
      fetchUserRoles_user_id_presence
        [of None None example_decoder "Some ''h.eyJzY29wZSI6ICJhZG1pbiJ9.s''"]
    by blast
qed

section \<open>The profile normalizer\<close>

lemma profile_total: "\<exists>u. profile dec p tokens = Inr u"
  using fetchUserRoles_total [of dec "sub p" "access_token tokens"]
  by (auto simp: profile_def and_then_def)

text \<open>
  C2, as written: a profile without a subject makes \<open>profile\<close> fail with a
  MissingSubjectError. It fails on the code, which has no such error: the record is
  built with an absent id and no roles, the other fields as given.
\<close>

theorem profile_missing_subject_counterexample:
  "profile example_decoder
     \<lparr>sub = None, name = Some ''Ada'', email = Some ''ada@example.org'',
      email_verified = Some True, given_name = None, family_name = None,
      roles = None, identities = None\<rparr>
     \<lparr>access_token = Some ''h.eyJzY29wZSI6ICJhZG1pbiBzdGFmZiJ9.s'', id_token = None\<rparr>
   = Inr \<lparr>user_id = None, user_name = Some ''Ada'', user_email = Some ''ada@example.org'',
          user_image = None, user_roles = Some [], user_email_verified = Some True,
          user_identities = Some []\<rparr>"
  by (simp add: profile_def and_then_def fetchUserRoles_def falsy_string_def display_name_def)

text \<open>
  C2, amended: for every raw profile in which the subject is absent, \<open>profile\<close> does
  not fail. It returns the user record whose id is absent and whose role list is empty,
  whatever the access token, and whose other fields are those of any profile: the name
  is the display name when that is present and not empty and the two name parts around
  a space otherwise, the email and the verification flag are copied, the identities are
  those of the profile or the empty list, and there is no image.
\<close>

theorem profile_absent_subject:
  assumes "sub p = None"
  shows "profile dec p tokens
         = Inr \<lparr>user_id = None,
                user_name = Some (if falsy_string (name p)
                                  then template_string (given_name p) @ '' ''
                                       @ template_string (family_name p)
                                  else (case name p of Some n \<Rightarrow> n | None \<Rightarrow> [])),
                user_email = email p,
                user_image = None,
                user_roles = Some [],
                user_email_verified = email_verified p,
                user_identities = Some (case identities p of None \<Rightarrow> [] | Some ids \<Rightarrow> ids)\<rparr>"
  using assms
  by (simp add: profile_def and_then_def fetchUserRoles_def falsy_string_def display_name_def)

text \<open>
  The theorem at a profile with the name parts A and B, an email and no subject, beside
  a token that carries the scope \<open>admin\<close>: the record has no id and no role.
\<close>

theorem profile_absent_subject_witness:
  "sub \<lparr>sub = None, name = None, email = Some ''ada@example.org'', email_verified = None,
        given_name = Some ''A'', family_name = Some ''B'', roles = None, identities = None\<rparr>
     = None
   \<and> profile example_decoder
        \<lparr>sub = None, name = None, email = Some ''ada@example.org'', email_verified = None,
         given_name = Some ''A'', family_name = Some ''B'', roles = None, identities = None\<rparr>
        \<lparr>access_token = Some ''h.eyJzY29wZSI6ICJhZG1pbiJ9.s'', id_token = None\<rparr>
     = Inr \<lparr>user_id = None, user_name = Some ''A B'', user_email = Some ''ada@example.org'',
            user_image = None, user_roles = Some [], user_email_verified = None,
            user_identities = Some []\<rparr>"
proof -
  let ?p = "\<lparr>sub = None, name = None, email = Some ''ada@example.org'',
             email_verified = None, given_name = Some ''A'', family_name = Some ''B'',
             roles = None, identities = None\<rparr>"
  let ?t = "\<lparr>access_token = Some ''h.eyJzY29wZSI6ICJhZG1pbiJ9.s'', id_token = None\<rparr>"
  have h: "sub ?p = None" by simp
  show ?thesis
    using profile_absent_subject [OF h, of example_decoder ?t]
    by (simp add: falsy_string_def template_string_def)
qed

text \<open>
  C6, as written: with the subject present, an absent email becomes the empty string
  and an absent verification flag becomes false. It fails on the code, which copies
  both fields as they are: they stay absent.
\<close>

theorem profile_email_defaults_counterexample:
  "profile example_decoder
     \<lparr>sub = Some ''u1'', name = None, email = None, email_verified = None,
      given_name = Some ''A'', family_name = Some ''B'', roles = None, identities = None\<rparr>
     \<lparr>access_token = None, id_token = None\<rparr>
   = Inr \<lparr>user_id = Some ''u1'', user_name = Some ''A B'', user_email = None,
          user_image = None, user_roles = Some [], user_email_verified = None,
          user_identities = Some []\<rparr>"
  by (simp add: profile_def and_then_def fetchUserRoles_def falsy_string_def display_name_def
      template_string_def)

text \<open>
  C6, amended: for every raw profile with a subject present, \<open>profile\<close> returns a record
  with that subject as id; when the display name is absent or empty and both name parts
  are present, its name is the given name, a space and the family name; its identities
  are the empty list when absent; its email and its verification flag are those of the
  profile, absent when they are absent there.
\<close>

theorem profile_defaults:
  assumes "sub p = Some s"
  shows "\<exists>u. profile dec p tokens = Inr u
           \<and> user_id u = Some s
           \<and> (falsy_string (name p) \<and> given_name p = Some g \<and> family_name p = Some f
                \<longrightarrow> user_name u = Some (g @ '' '' @ f))
           \<and> (identities p = None \<longrightarrow> user_identities u = Some [])
           \<and> user_email u = email p
           \<and> user_email_verified u = email_verified p"
proof -
  obtain rs where rs: "fetchUserRoles dec (sub p) (access_token tokens) = Inr rs"
    using fetchUserRoles_total by blast
  show ?thesis
    using assms rs
    by (simp add: profile_def and_then_def display_name_def template_string_def)
qed

text \<open>The theorem at the example of the specification: subject u1, name parts A and B.\<close>

theorem profile_defaults_witness:
  "\<exists>u. profile example_decoder
          \<lparr>sub = Some ''u1'', name = None, email = None, email_verified = None,
           given_name = Some ''A'', family_name = Some ''B'', roles = None, identities = None\<rparr>
          \<lparr>access_token = Some ''h.eyJzY29wZSI6ICJhZG1pbiJ9.s'', id_token = None\<rparr> = Inr u
        \<and> user_id u = Some ''u1'' \<and> user_name u = Some ''A B''
        \<and> user_identities u = Some [] \<and> user_email u = None \<and> user_email_verified u = None"
proof -
  let ?p = "\<lparr>sub = Some ''u1'', name = None, email = None, email_verified = None,
             given_name = Some ''A'', family_name = Some ''B'', roles = None,
             identities = None\<rparr>"
  let ?t = "\<lparr>access_token = Some ''h.eyJzY29wZSI6ICJhZG1pbiJ9.s'', id_token = None\<rparr>"
  have h: "sub ?p = Some ''u1''" by simp
  show ?thesis
    using profile_defaults [OF h, of example_decoder ?t "''A''" "''B''"]
    by (simp add: falsy_string_def)
qed

section \<open>The session enricher\<close>

text \<open>
  C7: when the account or the profile is absent, stage A returns the token it was
  given, unchanged in every field. When both are present and the callback returns, the
  roles of the new record are those \<open>fetchUserRoles\<close> derives from the fresh access
  token: they are replaced as a whole, and neither the old record nor the roles of the
  incoming user enter them.
\<close>

theorem jwt_callback_passthrough:
  "(account = None \<or> prof = None \<longrightarrow> jwt_callback dec token account prof usr = Inr token)
   \<and> (\<forall>acc p token'.
         account = Some acc \<and> prof = Some p
         \<and> jwt_callback dec token account prof usr = Inr token'
         \<longrightarrow> (\<exists>u rs. jwt_user token' = Some u \<and> user_roles u = Some rs
                  \<and> fetchUserRoles dec (sub p) (access_token acc) = Inr rs))"
proof (intro conjI impI allI)
  assume "account = None \<or> prof = None"
  then show "jwt_callback dec token account prof usr = Inr token"
    by (auto simp: jwt_callback_def split: option.splits)
next
  fix acc p token'
  assume a: "account = Some acc \<and> prof = Some p
    \<and> jwt_callback dec token account prof usr = Inr token'"
  obtain rs where rs: "fetchUserRoles dec (sub p) (access_token acc) = Inr rs"
    using fetchUserRoles_total by blast
  from a rs show "\<exists>u rs. jwt_user token' = Some u \<and> user_roles u = Some rs
      \<and> fetchUserRoles dec (sub p) (access_token acc) = Inr rs"
    by (auto simp: jwt_callback_def and_then_def split: sum.splits)
qed

text \<open>
  The theorem at a record that holds the staff role: a later call without an account
  returns it as it is; a call with a fresh account whose token carries the scope
  \<open>admin\<close> returns a record whose roles are the admin role alone.
\<close>

theorem jwt_callback_passthrough_witness:
  "jwt_callback example_decoder
     \<lparr>jwt_user = Some \<lparr>user_id = Some ''u1'', user_name = Some ''Ada'', user_email = None,
                       user_image = None, user_roles = Some [staff_role],
                       user_email_verified = None, user_identities = None\<rparr>,
      jwt_accessToken = Some ''old'', jwt_claims = []\<rparr>
     None None None
   = Inr \<lparr>jwt_user = Some \<lparr>user_id = Some ''u1'', user_name = Some ''Ada'', user_email = None,
                       user_image = None, user_roles = Some [staff_role],
                       user_email_verified = None, user_identities = None\<rparr>,
          jwt_accessToken = Some ''old'', jwt_claims = []\<rparr>
   \<and> (\<exists>token' u. jwt_callback example_decoder
          \<lparr>jwt_user = Some \<lparr>user_id = Some ''u1'', user_name = Some ''Ada'', user_email = None,
                       user_image = None, user_roles = Some [staff_role],
                       user_email_verified = None, user_identities = None\<rparr>,
           jwt_accessToken = Some ''old'', jwt_claims = []\<rparr>
          (Some \<lparr>access_token = Some ''h.eyJzY29wZSI6ICJhZG1pbiJ9.s'', id_token = None\<rparr>)
          (Some \<lparr>sub = Some ''u1'', name = Some ''Ada'', email = Some ''ada@example.org'',
                 email_verified = None, given_name = None, family_name = None,
                 roles = None, identities = None\<rparr>)
          None = Inr token'
        \<and> jwt_user token' = Some u \<and> user_roles u = Some [admin_role])"
proof -
  let ?tok = "\<lparr>jwt_user = Some \<lparr>user_id = Some ''u1'', user_name = Some ''Ada'',
                       user_email = None,
                       user_image = None, user_roles = Some [staff_role],
                       user_email_verified = None, user_identities = None\<rparr>,
           jwt_accessToken = Some ''old'', jwt_claims = []\<rparr>"
  let ?acc = "\<lparr>access_token = Some ''h.eyJzY29wZSI6ICJhZG1pbiJ9.s'', id_token = None\<rparr>"
  let ?p = "\<lparr>sub = Some ''u1'', name = Some ''Ada'', email = Some ''ada@example.org'',
                 email_verified = None, given_name = None, family_name = None,
                 roles = None, identities = None\<rparr>"
  have roles: "fetchUserRoles example_decoder (sub ?p) (access_token ?acc) = Inr [admin_role]"
    by (simp add: fetchUserRoles_def falsy_string_def try_catch_def decode_roles_def
        and_then_def example_decoder_def scope_roles_def admin_role_def)
  obtain token' where run: "jwt_callback example_decoder ?tok (Some ?acc) (Some ?p) None = Inr token'"
    using roles by (simp add: jwt_callback_def and_then_def or_user_property_def)
  from jwt_callback_passthrough [of "Some ?acc" "Some ?p" example_decoder ?tok None] run
  obtain u rs where "jwt_user token' = Some u" "user_roles u = Some rs"
    "fetchUserRoles example_decoder (sub ?p) (access_token ?acc) = Inr rs"
    by blast
  with roles run have second:
    "jwt_callback example_decoder ?tok (Some ?acc) (Some ?p) None = Inr token'
     \<and> jwt_user token' = Some u \<and> user_roles u = Some [admin_role]"
    by simp
  have first: "jwt_callback example_decoder ?tok None None None = Inr ?tok"
    using jwt_callback_passthrough [of None None example_decoder ?tok None] by blast
  from first second show ?thesis by blast
qed

text \<open>
  On a token that stage A has never enriched, stage B keeps the user of the session it
  was given and sets the access token.
\<close>

lemma session_callback_without_user:
  "session_callback s \<lparr>jwt_user = None, jwt_accessToken = a, jwt_claims = c\<rparr>
     = s\<lparr>session_accessToken := a\<rparr>"
  by (simp add: session_callback_def)

text \<open>
  C8: a durable record is a token on which stage A has run, so one whose user is
  present. For every such record and every incoming session, the user and the access
  token of the session that stage B returns are those of the record; two calls against
  the same record therefore give the same view, whatever sessions they started from.
\<close>

theorem session_callback_projection:
  "session_view (session_callback s \<lparr>jwt_user = Some u, jwt_accessToken = a, jwt_claims = c\<rparr>)
     = (Some u, a)
   \<and> session_view (session_callback s1 \<lparr>jwt_user = Some u, jwt_accessToken = a, jwt_claims = c\<rparr>)
     = session_view (session_callback s2 \<lparr>jwt_user = Some u, jwt_accessToken = a, jwt_claims = c\<rparr>)"
  by (simp add: session_callback_def session_view_def)

section \<open>The route guard\<close>

lemma hasRequiredRole_iff:
  "hasRequiredRole rs s \<longleftrightarrow> set (userRoles s) \<inter> set rs \<noteq> {}"
  by (auto simp: hasRequiredRole_def list_ex_iff)

text \<open>
  C1: for every loader, every request context and every required-role list that is
  absent or not empty. When the session lookup finds no session, the wrapped loader
  returns the redirect to the sign-in entry point; when it finds a session, the
  required roles are given and none of them is among the names of the session's roles,
  the wrapped loader returns the redirect to the unauthorized page. In both cases the
  result and the world are those left by the session lookup, and any other loader in
  its place gives the same: the loader has not run. In every other case the wrapped loader returns what the
  loader returns on the world left by the lookup.
\<close>

theorem withAuth_guard:
  fixes getSession :: "('c, 'w) session_lookup"
    and gssp gssp' :: "('c, 'w, 'p) loader"
  assumes "requiredRoles \<noteq> Some []"
  shows "(getSession context w = (None, w1)
            \<longrightarrow> withAuth getSession gssp requiredRoles context w
                  = (Inr (Redirect ''/api/auth/signin'' False), w1))
         \<and> (\<forall>s rs. getSession context w = (Some s, w1) \<and> requiredRoles = Some rs
                  \<and> set (userRoles s) \<inter> set rs = {}
            \<longrightarrow> withAuth getSession gssp requiredRoles context w
                  = (Inr (Redirect ''/unauthorized'' False), w1))
         \<and> (\<forall>s. getSession context w = (Some s, w1)
                  \<and> (requiredRoles = None
                      \<or> (\<exists>rs. requiredRoles = Some rs \<and> set (userRoles s) \<inter> set rs \<noteq> {}))
            \<longrightarrow> withAuth getSession gssp requiredRoles context w = gssp context w1)
         \<and> (getSession context w = (None, w1)
               \<or> (\<exists>s rs. getSession context w = (Some s, w1) \<and> requiredRoles = Some rs
                      \<and> set (userRoles s) \<inter> set rs = {})
            \<longrightarrow> withAuth getSession gssp requiredRoles context w
                  = withAuth getSession gssp' requiredRoles context w)"
proof -
  have signin: "withAuth getSession g requiredRoles context w
      = (Inr (Redirect ''/api/auth/signin'' False), w1)"
    if "getSession context w = (None, w1)" for g :: "('c, 'w, 'p) loader"
    using that by (simp add: withAuth_def)
  have denied: "withAuth getSession g requiredRoles context w
      = (Inr (Redirect ''/unauthorized'' False), w1)"
    if "getSession context w = (Some s, w1)" "requiredRoles = Some rs"
      "set (userRoles s) \<inter> set rs = {}"
    for g :: "('c, 'w, 'p) loader" and s rs
    using that assms by (simp add: withAuth_def hasRequiredRole_iff)
  have granted: "withAuth getSession gssp requiredRoles context w = gssp context w1"
    if "getSession context w = (Some s, w1)"
      "requiredRoles = None
       \<or> (\<exists>rs. requiredRoles = Some rs \<and> set (userRoles s) \<inter> set rs \<noteq> {})"
    for s
    using that by (auto simp: withAuth_def hasRequiredRole_iff disjoint_iff)
  have same: "withAuth getSession gssp requiredRoles context w
      = withAuth getSession gssp' requiredRoles context w"
    if "getSession context w = (None, w1)
        \<or> (\<exists>s rs. getSession context w = (Some s, w1) \<and> requiredRoles = Some rs
              \<and> set (userRoles s) \<inter> set rs = {})"
    using that signin [of gssp] signin [of gssp'] denied [of _ _ gssp] denied [of _ _ gssp']
    by (elim disjE exE conjE) simp_all
  show ?thesis
    using signin [of gssp] denied [of _ _ gssp] granted same by blast
qed

text \<open>
  The theorem at the three examples of the specification: no session; a session with
  the staff role where admin is required; the same session where admin or staff is
  required. The loader has run once in the last case only.
\<close>

theorem withAuth_guard_witness:
  "withAuth context_session counting_loader (Some [''admin'']) None 0
     = (Inr (Redirect ''/api/auth/signin'' False), 0)
   \<and> withAuth context_session counting_loader (Some [''admin'']) (Some staff_session) 0
     = (Inr (Redirect ''/unauthorized'' False), 0)
   \<and> withAuth context_session counting_loader (Some [''admin'', ''staff'']) (Some staff_session) 0
     = (Inr (Props ''page''), 1)"
proof -
  have names: "userRoles staff_session = [''staff'']"
    by (simp add: userRoles_def staff_session_def staff_role_def)
  have a: "Some [''admin''] \<noteq> Some ([]::string list)" by simp
  have b: "Some [''admin'', ''staff''] \<noteq> Some ([]::string list)" by simp
  have none: "context_session None (0::nat) = (None, 0)"
    by (simp add: context_session_def)
  have some: "context_session (Some staff_session) (0::nat) = (Some staff_session, 0)"
    by (simp add: context_session_def)
  have run: "counting_loader (Some staff_session) 0 = (Inr (Props ''page''), 1)"
    by (simp add: counting_loader_def)
  have denied: "set (userRoles staff_session) \<inter> set [''admin''] = {}"
    by (simp add: names)
  have granted: "set (userRoles staff_session) \<inter> set [''admin'', ''staff''] \<noteq> {}"
    by (simp add: names)
  have 1: "withAuth context_session counting_loader (Some [''admin'']) None 0
     = (Inr (Redirect ''/api/auth/signin'' False), 0)"
    using withAuth_guard [OF a, of context_session None 0 0 counting_loader] none by blast
  have 2: "withAuth context_session counting_loader (Some [''admin'']) (Some staff_session) 0
     = (Inr (Redirect ''/unauthorized'' False), 0)"
    using withAuth_guard [OF a, of context_session "Some staff_session" 0 0 counting_loader]
      some denied by blast
  have 3: "withAuth context_session counting_loader (Some [''admin'', ''staff''])
       (Some staff_session) 0 = counting_loader (Some staff_session) 0"
    using withAuth_guard [OF b, of context_session "Some staff_session" 0 0 counting_loader]
      some granted by blast
  from 1 2 3 run show ?thesis by simp
qed

text \<open>
  C10: with a session present, the guard given an empty list of required roles skips
  the role test and returns what the loader returns, exactly as the guard given no
  list does.
\<close>

theorem withAuth_empty_required_roles:
  assumes "getSession context w = (Some s, w1)"
  shows "withAuth getSession gssp (Some []) context w = gssp context w1
         \<and> withAuth getSession gssp (Some []) context w
           = withAuth getSession gssp None context w"
  using assms by (simp add: withAuth_def)

theorem withAuth_empty_required_roles_witness:
  "context_session (Some staff_session) (0::nat) = (Some staff_session, 0)
   \<and> withAuth context_session counting_loader (Some []) (Some staff_session) 0
     = (Inr (Props ''page''), 1)
   \<and> withAuth context_session counting_loader (Some []) (Some staff_session) 0
     = withAuth context_session counting_loader None (Some staff_session) 0"
proof -
  have some: "context_session (Some staff_session) (0::nat) = (Some staff_session, 0)"
    by (simp add: context_session_def)
  have run: "counting_loader (Some staff_session) 0 = (Inr (Props ''page''), 1)"
    by (simp add: counting_loader_def)
  from withAuth_empty_required_roles
         [of context_session "Some staff_session" 0 staff_session 0 counting_loader, OF some]
  have "withAuth context_session counting_loader (Some []) (Some staff_session) 0
           = counting_loader (Some staff_session) 0"
    and "withAuth context_session counting_loader (Some []) (Some staff_session) 0
           = withAuth context_session counting_loader None (Some staff_session) 0"
    by blast+
  with some run show ?thesis by (simp only: simp_thms)
qed

section \<open>The capability gate\<close>

text \<open>
  The optional chain itself evaluates to \<open>undefined\<close> on an absent session; as a
  condition that is false.
\<close>

lemma role_check_absent: "role_check None roleName = None"
  by (simp add: role_check_def)

text \<open>
  On a present session the two role tests of the repository agree: the test of
  \<open>withAuth\<close> holds exactly when the test of the pages holds for one of the names.
\<close>

lemma hasAnyRole_hasRole:
  "hasAnyRole (Some v) roleNames = Inr (list_ex (hasRole (Some v)) roleNames)"
proof (cases "session_user v")
  case None
  then show ?thesis
    by (simp add: hasAnyRole_def hasRequiredRole_def userRoles_def hasRole_def
        role_check_def list_ex_iff)
next
  case user: (Some u)
  show ?thesis
  proof (cases "user_roles u")
    case None
    with user show ?thesis
      by (simp add: hasAnyRole_def hasRequiredRole_def userRoles_def hasRole_def
          role_check_def list_ex_iff)
  next
    case (Some rs)
    with user show ?thesis
      by (auto simp: hasAnyRole_def hasRequiredRole_def userRoles_def hasRole_def
          role_check_def list_ex_iff)
  qed
qed




end
